theory Spec2Isabelle
  imports Main "HOL-Library.Word"
begin

unbundle bit_operations_syntax

section \<open>The process: environment, log, standard output\<close>

text \<open>
  The process environment is a partial map from variable names to values:
  \<open>os.LookupEnv k\<close> is \<open>env k\<close>, with \<open>None\<close> for a variable that is not set
  (a variable set to the empty string is \<open>Some []\<close>).
\<close>

type_synonym environ = "string \<rightharpoonup> string"

datatype log_level = Warn | Debug

record log_entry =
  level :: log_level
  log_fields :: "(string \<times> string) list"
  msg :: string

record process =
  env :: environ
  logs :: "log_entry list"
  stdout :: "string list"

text \<open>
  \<open>os.Setenv\<close> of the Go runtime: it refuses an empty name, a name holding \<open>=\<close> or a
  NUL byte and a value holding a NUL byte, and leaves the environment as it was; else
  it binds the name. The result is the error flag and the environment.
\<close>

definition Setenv :: "string \<Rightarrow> string \<Rightarrow> environ \<Rightarrow> bool \<times> environ" where
  "Setenv k v e =
     (if k = [] then (False, e)
      else if CHR ''='' \<in> set k then (False, e)
      else if CHR 0x00 \<in> set k then (False, e)
      else if CHR 0x00 \<in> set v then (False, e)
      else (True, e(k \<mapsto> v)))"

section \<open>pkg/cmd/dotenv.go\<close>

text \<open>
  What \<open>os.Stat\<close> answers for a path: the file is missing (\<open>os.IsNotExist\<close>), the call
  failed for another reason, or the file's mode bits (\<open>fs.FileMode\<close> is a \<open>uint32\<close>).
\<close>

datatype stat_result = NotExist | StatError string | FileInfo "32 word"

text \<open>
  The file system as the loader sees it: \<open>Stat\<close> is \<open>os.Stat\<close>, \<open>Read\<close> is
  \<open>godotenv.Read\<close> (a library outside the repository), which answers with an error
  text for a file it cannot open or parse, or with the key/value pairs of the file.
\<close>

record filesystem =
  Stat :: "string \<Rightarrow> stat_result"
  Read :: "string \<Rightarrow> string + (string \<rightharpoonup> string)"

definition octal_digit :: "nat \<Rightarrow> char" where
  "octal_digit n = char_of (48 + n)"

text \<open>\<open>fmt.Sprintf("%#o", mode.Perm())\<close>: the nine permission bits in octal, with a leading 0.\<close>

definition Perm :: "32 word \<Rightarrow> 32 word" where
  "Perm mode = mode AND 0x1FF"

definition sharp_o :: "32 word \<Rightarrow> string" where
  "sharp_o w =
     (let n = unat w in
      if n = 0 then ''0''
      else if n < 8 then [CHR ''0'', octal_digit n]
      else if n < 64 then [CHR ''0'', octal_digit (n div 8), octal_digit (n mod 8)]
      else [CHR ''0'', octal_digit (n div 64 mod 8), octal_digit (n div 8 mod 8), octal_digit (n mod 8)])"

definition allowlist :: "string list" where
  "allowlist = [''STRIPE_SECRET_KEY'', ''STRIPE_DEVICE_NAME'']"

text \<open>
  The loop over the allow-list (dotenv.go, lines 83 to 90): a name the file binds is
  set in the environment unless the environment already has it; the error of
  \<open>os.Setenv\<close> is dropped.
\<close>

fun load_allowed :: "string list \<Rightarrow> (string \<rightharpoonup> string) \<Rightarrow> environ \<Rightarrow> environ" where
  "load_allowed [] vars e = e"
| "load_allowed (k # ks) vars e =
     load_allowed ks vars
       (case vars k of
          None \<Rightarrow> e
        | Some v \<Rightarrow> (case e k of None \<Rightarrow> snd (Setenv k v e) | Some old \<Rightarrow> e))"

definition insecure_warning :: "string \<Rightarrow> 32 word \<Rightarrow> log_entry" where
  "insecure_warning path mode =
     \<lparr> level = Warn,
       log_fields = [(''prefix'', ''cmd.loadDotenvFromFlags''), (''path'', path),
                 (''mode'', sharp_o (Perm mode))],
       msg = ''Skipping .env file: file permissions are too permissive (world-readable). Run 'chmod 600 .env' to fix this.'' \<rparr>"

definition loaded_debug :: "string \<Rightarrow> log_entry" where
  "loaded_debug path =
     \<lparr> level = Debug,
       log_fields = [(''prefix'', ''cmd.loadDotenvFromFlags''), (''path'', path)],
       msg = ''Loaded environment variables from .env file'' \<rparr>"

text \<open>
  The file the loader looks at and whether the user asked for it (lines 14 to 27):
  \<open>envFile\<close> is the \<open>--env-file\<close> flag, \<open>dotenv\<close> the \<open>--dotenv\<close> flag.
\<close>

definition choose_path :: "string \<Rightarrow> bool \<Rightarrow> string \<times> bool" where
  "choose_path envFile dotenv =
     (if envFile \<noteq> [] then (envFile, True)
      else if dotenv then (''.env'', True)
      else (''.env'', False))"

text \<open>
  \<open>loadDotenvFromFlags\<close>. The result is the panic, if the function panicked
  (\<open>Some\<close> of the error's text), and the process as the function left it.
\<close>

definition loadDotenvFromFlags ::
  "string \<Rightarrow> bool \<Rightarrow> filesystem \<Rightarrow> process \<Rightarrow> string option \<times> process" where
  "loadDotenvFromFlags envFile dotenv fs p =
     (case choose_path envFile dotenv of (path, explicitlyRequested) \<Rightarrow>
      (case Stat fs path of
         NotExist \<Rightarrow>
           (if explicitlyRequested
            then (Some (''failed to load '' @ path @ '': file not found''), p)
            else (None, p))
       | StatError err \<Rightarrow>
           (if explicitlyRequested
            then (Some (''failed to stat '' @ path @ '': '' @ err), p)
            else (None, p))
       | FileInfo mode \<Rightarrow>
           (if mode AND 4 \<noteq> 0
            then (let p1 = p\<lparr>logs := logs p @ [insecure_warning path mode]\<rparr> in
                  if explicitlyRequested
                  then (Some (''.env file has insecure permissions (world-readable): '' @ path
                              @ ''. Run 'chmod 600 '' @ path @ ''' to fix this''), p1)
                  else (None, p1))
            else (case Read fs path of
                    Inl err \<Rightarrow> (Some (''failed to load '' @ path @ '': '' @ err), p)
                  | Inr vars \<Rightarrow>
                      (let p1 = p\<lparr>logs := logs p @ [loaded_debug path]\<rparr>;
                           p2 = (if dotenv
                                 then p1\<lparr>stdout := stdout p1 @ [''Loaded environment variables from '' @ path]\<rparr>
                                 else p1)
                       in (None, p2\<lparr>env := load_allowed allowlist vars (env p2)\<rparr>))))))"

section \<open>pkg/cmd/whoami.go\<close>

text \<open>
  A \<open>time.Time\<close> is an instant, counted in nanoseconds from Go's zero time (January 1
  of year 1, 00:00:00 UTC), so \<open>t.IsZero()\<close> is \<open>t = 0\<close>; a \<open>time.Duration\<close> counts
  nanoseconds. The dates the command handles lie in the years 0 to 9999, far from the
  bounds of Go's representation, so instants are unbounded integers here.
\<close>

type_synonym instant = int

definition Hour :: int where
  "Hour = 3600 * 1000000000"

text \<open>
  What the methods of \<open>*config.Profile\<close> answer (package \<open>pkg/config\<close> is not among the
  sources, so the command is modelled for any answers). A Go pair \<open>(v, err)\<close> is a pair
  whose second component is \<open>None\<close> for a nil error. \<open>GetAPIKey\<close> and \<open>GetExpiresAt\<close>
  take the \<open>livemode\<close> flag.
\<close>

record profile_methods =
  GetDisplayName :: string
  GetAccountID :: "string \<times> string option"
  GetDeviceName :: "string \<times> string option"
  GetColor :: "string \<times> string option"
  GetAPIKey :: "bool \<Rightarrow> string \<times> string option"
  GetExpiresAt :: "bool \<Rightarrow> instant \<times> string option"

text \<open>
  The functions of other packages the command calls: \<open>t.Format(DateStringFormat)\<close>,
  \<open>time.Parse(DateStringFormat, s)\<close> (\<open>None\<close> for an error) and
  \<open>config.RedactAPIKey\<close>.
\<close>

record whoami_deps =
  Format :: "instant \<Rightarrow> string"
  Parse :: "string \<Rightarrow> instant option"
  RedactAPIKey :: "string \<Rightarrow> string"

text \<open>The struct \<open>whoamiOutput\<close>; the field \<open>out.X\<close> of the source is \<open>out_X\<close>.\<close>

record whoamiOutput =
  out_ProjectName :: string
  out_AccountID :: string
  out_DisplayName :: string
  out_DeviceName :: string
  out_Color :: string
  out_HasTestKey :: bool
  out_HasLiveKey :: bool
  out_TestKeyExp :: string
  out_LiveKeyExp :: string
  out_TestAPIKey :: string
  out_LiveAPIKey :: string
  out_ProfilesFile :: string

definition ok_or_empty :: "string \<times> string option \<Rightarrow> string" where
  "ok_or_empty r = (case r of (v, None) \<Rightarrow> v | (v, Some err) \<Rightarrow> [])"

definition has_key :: "string \<times> string option \<Rightarrow> bool" where
  "has_key r = (case r of (key, None) \<Rightarrow> key \<noteq> [] | (key, Some err) \<Rightarrow> False)"

definition expiry_string :: "whoami_deps \<Rightarrow> instant \<times> string option \<Rightarrow> string" where
  "expiry_string d r =
     (case r of (t, None) \<Rightarrow> (if t \<noteq> 0 then Format d t else [])
              | (t, Some err) \<Rightarrow> [])"

text \<open>Lines 50 to 93 of the command: the record it prints.\<close>

definition build_output ::
  "whoami_deps \<Rightarrow> profile_methods \<Rightarrow> string \<Rightarrow> string \<Rightarrow> bool \<Rightarrow> whoamiOutput" where
  "build_output d p projectName profilesFile showKeys =
     (let testKey = fst (GetAPIKey p False);
          liveKey = fst (GetAPIKey p True);
          hasTest = has_key (GetAPIKey p False);
          hasLive = has_key (GetAPIKey p True)
      in \<lparr> out_ProjectName = projectName,
           out_AccountID = ok_or_empty (GetAccountID p),
           out_DisplayName = GetDisplayName p,
           out_DeviceName = ok_or_empty (GetDeviceName p),
           out_Color = ok_or_empty (GetColor p),
           out_HasTestKey = hasTest,
           out_HasLiveKey = hasLive,
           out_TestKeyExp = expiry_string d (GetExpiresAt p False),
           out_LiveKeyExp = expiry_string d (GetExpiresAt p True),
           out_TestAPIKey = (if showKeys \<and> hasTest then RedactAPIKey d testKey else []),
           out_LiveAPIKey = (if showKeys \<and> hasLive then RedactAPIKey d liveKey else []),
           out_ProfilesFile = profilesFile \<rparr>)"

text \<open>
  What the command writes to its output: one JSON document (the fields in the order
  of the struct, a field tagged \<open>omitempty\<close> left out when it is empty), or one
  \<open>field: value\<close> line for each \<open>Fprintf\<close> and one plain line for the \<open>Fprintln\<close>.
\<close>

datatype json_value = JString string | JBool bool

datatype printed = JSON "(string \<times> json_value) list" | Labelled string string | Line string

definition omitempty :: "string \<Rightarrow> string \<Rightarrow> (string \<times> json_value) list" where
  "omitempty name v = (if v = [] then [] else [(name, JString v)])"

definition MarshalIndent :: "whoamiOutput \<Rightarrow> (string \<times> json_value) list" where
  "MarshalIndent out =
     [(''project_name'', JString (out_ProjectName out))]
     @ omitempty ''account_id'' (out_AccountID out)
     @ omitempty ''display_name'' (out_DisplayName out)
     @ omitempty ''device_name'' (out_DeviceName out)
     @ omitempty ''color'' (out_Color out)
     @ [(''has_test_mode_api_key'', JBool (out_HasTestKey out)),
        (''has_live_mode_api_key'', JBool (out_HasLiveKey out))]
     @ omitempty ''test_mode_key_expires_at'' (out_TestKeyExp out)
     @ omitempty ''live_mode_key_expires_at'' (out_LiveKeyExp out)
     @ omitempty ''test_mode_api_key'' (out_TestAPIKey out)
     @ omitempty ''live_mode_api_key'' (out_LiveAPIKey out)
     @ omitempty ''profiles_file'' (out_ProfilesFile out)"

definition fmt_bool :: "bool \<Rightarrow> string" where
  "fmt_bool b = (if b then ''true'' else ''false'')"

definition field_if_set :: "string \<Rightarrow> string \<Rightarrow> printed list" where
  "field_if_set name v = (if v \<noteq> [] then [Labelled name v] else [])"

text \<open>
  Lines 141 to 146: the test key counts as expired when its expiry string is there,
  parses, and the current time is after the parsed date plus 24 hours.
\<close>

definition test_key_expired :: "whoami_deps \<Rightarrow> string \<Rightarrow> instant \<Rightarrow> bool" where
  "test_key_expired d TestKeyExp now =
     (TestKeyExp \<noteq> [] \<and>
      (case Parse d TestKeyExp of None \<Rightarrow> False | Some exp \<Rightarrow> exp + 24 * Hour < now))"

definition expired_warning :: printed where
  "expired_warning = Line ''warning: test_mode_api_key appears expired (re-login may be required)''"

text \<open>Lines 105 to 147: the human output.\<close>

definition human_output :: "whoami_deps \<Rightarrow> whoamiOutput \<Rightarrow> bool \<Rightarrow> instant \<Rightarrow> printed list" where
  "human_output d out showKeys now =
     [Labelled ''project-name'' (out_ProjectName out)]
     @ field_if_set ''display_name'' (out_DisplayName out)
     @ field_if_set ''account_id'' (out_AccountID out)
     @ field_if_set ''device_name'' (out_DeviceName out)
     @ field_if_set ''color'' (out_Color out)
     @ [Labelled ''has_test_mode_api_key'' (fmt_bool (out_HasTestKey out))]
     @ field_if_set ''test_mode_key_expires_at'' (out_TestKeyExp out)
     @ [Labelled ''has_live_mode_api_key'' (fmt_bool (out_HasLiveKey out))]
     @ field_if_set ''live_mode_key_expires_at'' (out_LiveKeyExp out)
     @ (if showKeys
        then (if out_HasTestKey out then [Labelled ''test_mode_api_key'' (out_TestAPIKey out)] else [])
             @ (if out_HasLiveKey out then [Labelled ''live_mode_api_key'' (out_LiveAPIKey out)] else [])
        else [])
     @ (if test_key_expired d (out_TestKeyExp out) now then [expired_warning] else [])"

text \<open>
  \<open>RunE\<close> of the command: \<open>profile\<close> is \<open>Config.GetProfile()\<close> (\<open>None\<close> for nil),
  \<open>projectName\<close> the \<open>project-name\<close> flag, \<open>now\<close> is \<open>time.Now()\<close>. The result is the
  error the command returns (\<open>None\<close> for nil) and what it wrote. The command has the
  flag \<open>project-name\<close> (the root command declares it), and marshalling a struct of
  strings and booleans cannot fail, so that error branch is never taken.
\<close>

definition RunE ::
  "whoami_deps \<Rightarrow> profile_methods option \<Rightarrow> string \<Rightarrow> string \<Rightarrow> bool \<Rightarrow> bool \<Rightarrow> instant
     \<Rightarrow> string option \<times> printed list" where
  "RunE d profile projectName profilesFile asJSON showKeys now =
     (case profile of
        None \<Rightarrow> (Some ''no active profile found (try `stripe login` or check your config)'', [])
      | Some p \<Rightarrow>
          (let out = build_output d p projectName profilesFile showKeys in
           if asJSON then (None, [JSON (MarshalIndent out)])
           else (None, human_output d out showKeys now)))"

text \<open>Reading the output back: the value of a JSON field, the values printed under a label.\<close>

fun json_field :: "printed list \<Rightarrow> string \<Rightarrow> json_value option" where
  "json_field [JSON doc] name = map_of doc name"
| "json_field other name = None"

fun printed_under :: "printed list \<Rightarrow> string \<Rightarrow> string list" where
  "printed_under [] name = []"
| "printed_under (Labelled n v # ps) name =
     (if n = name then v # printed_under ps name else printed_under ps name)"
| "printed_under (JSON doc # ps) name = printed_under ps name"
| "printed_under (Line l # ps) name = printed_under ps name"

section \<open>The profile and its two stores\<close>

text \<open>
  Modelled from the spec: the colour preference of a profile (section 3; \<open>pkg/config\<close>
  is not among the sources).
\<close>

datatype color = Auto | Always | Never

text \<open>
  Modelled from the spec: \<open>config.Profile\<close>, the data model of section 3 (the struct is
  declared in \<open>pkg/config\<close>, which is not among the sources). The fields the sources
  name keep their names (\<open>ProfileName\<close>, \<open>AccountID\<close>, \<open>DisplayName\<close>, \<open>DeviceName\<close>,
  \<open>TestModeAPIKey\<close>); the others are named as the specification names them.
  \<open>ProfileName\<close> is the specification's \<open>ProjectName\<close>, \<open>TestModeAPIKey\<close> its
  \<open>SandboxKey\<close>. An optional string is empty when it is absent; an expiry date is a
  \<open>YYYY-MM-DD\<close> string.
\<close>

record Profile =
  ProfileName :: string
  AccountID :: string
  DisplayName :: string
  DeviceName :: string
  TestModeAPIKey :: string
  ProductionKey :: string
  SandboxKeyExpiresAt :: "string option"
  ProductionKeyExpiresAt :: "string option"
  ColorPreference :: color

text \<open>
  Modelled from the spec: the plaintext profile file of section 6, a structured
  key-value document with one named section per profile: the sections in the order of
  the file, each a list of \<open>field = value\<close> entries.
\<close>

type_synonym profiles_file = "(string \<times> (string \<times> string) list) list"

text \<open>
  Modelled from the spec: an optional string field of a section (section 3 calls the
  descriptive strings and the sandbox key optional): written when the profile has it.
\<close>

definition entry_if_set :: "string \<Rightarrow> string \<Rightarrow> (string \<times> string) list" where
  "entry_if_set name v = (if v = [] then [] else [(name, v)])"

text \<open>
  Modelled from the spec: an optional date field of a section (section 3: an absent
  expiry means no known expiry): written when the profile has it.
\<close>

definition entry_if_some :: "string \<Rightarrow> string option \<Rightarrow> (string \<times> string) list" where
  "entry_if_some name d = (case d of None \<Rightarrow> [] | Some v \<Rightarrow> [(name, v)])"

text \<open>
  Modelled from the spec: the section \<open>ProfileStore.CreateProfile\<close> writes for a profile
  (the method is in \<open>pkg/config\<close>, which is not among the sources). Section 6 of the
  specification lists the fields of a section: \<open>account_id\<close>, \<open>display_name\<close>,
  \<open>test_mode_api_key\<close>, \<open>test_mode_key_expires_at\<close>, \<open>live_mode_key_expires_at\<close>;
  section 4.3 says the write path emits only sandbox-tier fields and descriptive
  metadata.
\<close>

definition plaintext_block :: "Profile \<Rightarrow> (string \<times> string) list" where
  "plaintext_block p =
     entry_if_set ''account_id'' (AccountID p)
     @ entry_if_set ''display_name'' (DisplayName p)
     @ entry_if_set ''test_mode_api_key'' (TestModeAPIKey p)
     @ entry_if_some ''test_mode_key_expires_at'' (SandboxKeyExpiresAt p)
     @ entry_if_some ''live_mode_key_expires_at'' (ProductionKeyExpiresAt p)"

text \<open>
  Modelled from the spec: writing a section (section 4.3: re-creating a profile with the
  same name overwrites its block without disturbing the other profiles of the file).
\<close>

fun write_block :: "string \<Rightarrow> (string \<times> string) list \<Rightarrow> profiles_file \<Rightarrow> profiles_file" where
  "write_block name b [] = [(name, b)]"
| "write_block name b ((n, old) # rest) =
     (if n = name then (name, b) # rest else (n, old) # write_block name b rest)"

text \<open>
  Modelled from the spec: \<open>ProfileStore.CreateProfile\<close> (\<open>pkg/config\<close> is not among the
  sources). \<open>write_error\<close> is the failure of the file system, if any: section 7 says a
  profile write either fully replaces the named block or fails before touching the file.
\<close>

definition CreateProfile :: "string option \<Rightarrow> Profile \<Rightarrow> profiles_file \<Rightarrow> string + profiles_file" where
  "CreateProfile write_error p file =
     (case write_error of
        Some err \<Rightarrow> Inl err
      | None \<Rightarrow> Inr (write_block (ProfileName p) (plaintext_block p) file))"

text \<open>The values a profile file holds, in any section.\<close>

definition file_values :: "profiles_file \<Rightarrow> string list" where
  "file_values file = concat (map (\<lambda>sec. map snd (snd sec)) file)"

text \<open>
  Modelled from the spec: the store behind the \<open>SecureStore\<close> adapter of section 4.2
  (\<open>pkg/config\<close> is not among the sources): a platform store that is not available, or
  the list of items of the in-memory substitute.
\<close>

datatype secure_store = Unavailable | Items "(string \<times> string) list"

text \<open>
  Modelled from the spec: \<open>SecureStore.Get\<close> of section 4.2: a store that is not
  available answers \<open>found = false\<close>, as a key that is not stored does.
\<close>

definition SecureStore_Get :: "secure_store \<Rightarrow> string \<Rightarrow> string \<times> bool" where
  "SecureStore_Get store k =
     (case store of
        Unavailable \<Rightarrow> ([], False)
      | Items items \<Rightarrow> (case map_of items k of None \<Rightarrow> ([], False) | Some v \<Rightarrow> (v, True)))"

text \<open>Modelled from the spec: the two modes of section 4.1.\<close>

datatype mode = Sandbox | Production

text \<open>
  Modelled from the spec: the stored key of a mode, steps 2 to 4 of the precedence of
  section 4.1: for production the secure store under \<open><ProjectName>.live_mode_api_key\<close>,
  for sandbox the profile's plaintext key, else absence; no mode falls back on the
  other.
\<close>

definition stored_key :: "secure_store \<Rightarrow> Profile \<Rightarrow> mode \<Rightarrow> string \<times> bool" where
  "stored_key store p m =
     (case m of
        Production \<Rightarrow> SecureStore_Get store (ProfileName p @ ''.live_mode_api_key'')
      | Sandbox \<Rightarrow> (if TestModeAPIKey p \<noteq> [] then (TestModeAPIKey p, True) else ([], False)))"

text \<open>
  Modelled from the spec: \<open>CredentialResolver.Resolve\<close> of section 4.1 (the resolver is
  \<open>Profile.GetAPIKey\<close> of \<open>pkg/config\<close>, which is not among the sources). \<open>override\<close>
  names the environment variable that overrides each mode. The override wins if it is
  set and not empty; else the stored key of the mode is the answer.
\<close>

definition Resolve ::
  "(mode \<Rightarrow> string) \<Rightarrow> environ \<Rightarrow> secure_store \<Rightarrow> Profile \<Rightarrow> mode \<Rightarrow> string \<times> bool" where
  "Resolve override e store p m =
     (case e (override m) of
        None \<Rightarrow> stored_key store p m
      | Some v \<Rightarrow> (if v \<noteq> [] then (v, True) else stored_key store p m))"

section \<open>pkg/login/api_key_login.go\<close>

text \<open>
  The functions \<open>LoginWithAPIKey\<close> calls that are not among the sources:
  \<open>strings.TrimSpace\<close>, \<open>validators.APIKey\<close> (\<open>None\<close> for a nil error), \<open>os.Hostname\<close>,
  \<open>getDisplayName\<close> and \<open>SuccessMessage\<close> (both take the API's base URL and the key and
  call the remote service), and the file system's answer to the profile write.
\<close>

record login_deps =
  TrimSpace :: "string \<Rightarrow> string"
  APIKey :: "string \<Rightarrow> string option"
  Hostname :: "string \<times> string option"
  getDisplayName :: "string \<Rightarrow> string \<Rightarrow> string \<times> string option"
  SuccessMessage :: "string \<Rightarrow> string \<Rightarrow> string \<times> string option"
  write_error :: "string option"

text \<open>
  What the function changes: \<open>cfg.Profile\<close>, the profile file, and the lines printed
  (each \<open>Printf\<close> ends its line, so a line is kept without its newline).
\<close>

record login_state =
  cfg_Profile :: Profile
  config_file :: profiles_file
  console :: "string list"

definition LoginWithAPIKey ::
  "login_deps \<Rightarrow> string \<Rightarrow> string \<Rightarrow> login_state \<Rightarrow> string option \<times> login_state" where
  "LoginWithAPIKey d apiBaseURL apiKey0 s =
     (let apiKey = TrimSpace d apiKey0 in
      case APIKey d apiKey of
        Some err \<Rightarrow> (Some err, s)
      | None \<Rightarrow>
          (let p0 = cfg_Profile s;
               p1 = (if TrimSpace d (DeviceName p0) = []
                     then p0\<lparr>DeviceName := (case Hostname d of (hostName, None) \<Rightarrow> hostName
                                                               | (hostName, Some err) \<Rightarrow> ''unknown'')\<rparr>
                     else p0);
               p2 = p1\<lparr>TestModeAPIKey := apiKey\<rparr>;
               p3 = p2\<lparr>DisplayName := fst (getDisplayName d apiBaseURL apiKey)\<rparr>;
               s1 = s\<lparr>cfg_Profile := p3\<rparr>
           in case CreateProfile (write_error d) p3 (config_file s1) of
                Inl err \<Rightarrow> (Some err, s1)
              | Inr file \<Rightarrow>
                  (let s2 = s1\<lparr>config_file := file\<rparr> in
                   case SuccessMessage d apiBaseURL apiKey of
                     (message, Some err) \<Rightarrow>
                       (None, s2\<lparr>console := console s2
                                 @ [''> Error verifying the CLI was setup successfully: '' @ err]\<rparr>)
                   | (message, None) \<Rightarrow>
                       (None, s2\<lparr>console := console s2 @ [''> '' @ message]\<rparr>))))"

section \<open>Inputs of the tests\<close>

text \<open>
  \<open>dotenv_test.go\<close>: a world-readable file (mode 0644) at \<open>.env\<close> and at
  \<open>insecure.env\<close>; a file of mode 0600 that the parser refuses; a file of mode 0600 at
  \<open>test.env\<close> that binds both allow-listed names and one more; an environment with no
  variable, and one where \<open>STRIPE_SECRET_KEY\<close> is already set.
\<close>

definition empty_process :: process where
  "empty_process = \<lparr> env = Map.empty, logs = [], stdout = [] \<rparr>"

definition existing_process :: process where
  "existing_process =
     \<lparr> env = [''STRIPE_SECRET_KEY'' \<mapsto> ''sk_test_existing''], logs = [], stdout = [] \<rparr>"

definition insecure_fs :: filesystem where
  "insecure_fs =
     \<lparr> Stat = (\<lambda>path. if path = ''.env'' then FileInfo 0x1A4
                       else if path = ''insecure.env'' then FileInfo 0x1A4
                       else NotExist),
       Read = (\<lambda>path. Inr [''STRIPE_SECRET_KEY'' \<mapsto> ''sk_test_insecure'']) \<rparr>"

definition malformed_fs :: filesystem where
  "malformed_fs =
     \<lparr> Stat = (\<lambda>path. if path = ''.env'' then FileInfo 0x180 else NotExist),
       Read = (\<lambda>path. Inl ''unexpected character in variable name'') \<rparr>"

definition secure_fs :: filesystem where
  "secure_fs =
     \<lparr> Stat = (\<lambda>path. if path = ''test.env'' then FileInfo 0x180 else NotExist),
       Read = (\<lambda>path. Inr [''STRIPE_SECRET_KEY'' \<mapsto> ''sk_test_from_file'',
                              ''STRIPE_DEVICE_NAME'' \<mapsto> ''test_device'',
                              ''PATH'' \<mapsto> ''/tmp/evil'']) \<rparr>"

definition missing_fs :: filesystem where
  "missing_fs = \<lparr> Stat = (\<lambda>path. NotExist), Read = (\<lambda>path. Inl ''no such file or directory'') \<rparr>"

text \<open>
  \<open>whoami_test.go\<close>: the profile \<open>test\<close> with a test key in the profile file and a
  live key in the keyring; the dates are instants at midnight UTC. A second profile has
  no key at all, a third a test key that expired on 2024-01-01. The masking rule of the
  examples keeps the first eight characters.
\<close>

definition mask_after_prefix :: "string \<Rightarrow> string" where
  "mask_after_prefix key = take 8 key @ replicate (length key - 8) (CHR ''*'')"

definition test_deps :: whoami_deps where
  "test_deps =
     \<lparr> Format = (\<lambda>t. if t = 66206592000000000000 then ''2099-01-02''
                      else if t = 66209356800000000000 then ''2099-02-03''
                      else ''2024-01-01''),
       Parse = (\<lambda>s. if s = ''2099-01-02'' then Some 66206592000000000000
                     else if s = ''2099-02-03'' then Some 66209356800000000000
                     else if s = ''2024-01-01'' then Some 63839664000000000000
                     else None),
       RedactAPIKey = mask_after_prefix \<rparr>"

definition test_profile :: profile_methods where
  "test_profile =
     \<lparr> GetDisplayName = ''Alice'',
       GetAccountID = (''acct_123'', None),
       GetDeviceName = (''device-from-env'', None),
       GetColor = (''auto'', None),
       GetAPIKey = (\<lambda>livemode. if livemode then (''rk_live_0000000001'', None)
                                else (''sk_test_1234abcd'', None)),
       GetExpiresAt = (\<lambda>livemode. if livemode then (66209356800000000000, None)
                                   else (66206592000000000000, None)) \<rparr>"

definition keyless_profile :: profile_methods where
  "keyless_profile =
     test_profile\<lparr> GetAPIKey := (\<lambda>livemode. ([], Some ''your API key has not been configured'')),
                   GetExpiresAt := (\<lambda>livemode. (0, None)) \<rparr>"

definition expired_profile :: profile_methods where
  "expired_profile = test_profile\<lparr> GetExpiresAt := (\<lambda>livemode. (63839664000000000000, None)) \<rparr>"

text \<open>
  \<open>TestLoginWithAPIKeyDoesNotUseBrowserFlow\<close>: the profile \<open>default\<close> on the device
  \<open>st-testing\<close>, an empty profile file, a service that answers. The stand-in for
  \<open>validators.APIKey\<close> checks the key's format only (its length and its \<open>sk_\<close> or \<open>rk_\<close>
  prefix); the stand-in for \<open>strings.TrimSpace\<close> trims the ASCII white space. In the
  second state the profile already holds a production key, in the third the profile
  file also has a section of another profile; the second set of functions has a
  service that does not answer.
\<close>

definition is_space :: "char \<Rightarrow> bool" where
  "is_space c = (c \<in> {CHR 0x09, CHR 0x0A, CHR 0x0B, CHR 0x0C, CHR 0x0D, CHR '' ''})"

definition trim_ascii :: "string \<Rightarrow> string" where
  "trim_ascii s = rev (dropWhile is_space (rev (dropWhile is_space s)))"

definition format_check :: "string \<Rightarrow> string option" where
  "format_check key =
     (if length key < 12 then Some ''the API key provided is too short''
      else if take 3 key = ''sk_'' then None
      else if take 3 key = ''rk_'' then None
      else Some ''the CLI only supports using a secret or restricted key'')"

definition online_deps :: login_deps where
  "online_deps =
     \<lparr> TrimSpace = trim_ascii,
       APIKey = format_check,
       Hostname = (''st-testing'', None),
       getDisplayName = (\<lambda>url key. (''test-display'', None)),
       SuccessMessage = (\<lambda>url key. (''Done! The Stripe CLI is configured for test-display'', None)),
       write_error = None \<rparr>"

definition offline_deps :: login_deps where
  "offline_deps =
     online_deps\<lparr> getDisplayName := (\<lambda>url key. ([], Some ''connection refused'')),
                  SuccessMessage := (\<lambda>url key. ([], Some ''connection refused'')) \<rparr>"

definition default_profile :: Profile where
  "default_profile =
     \<lparr> ProfileName = ''default'', AccountID = [], DisplayName = [], DeviceName = ''st-testing'',
       TestModeAPIKey = [], ProductionKey = [], SandboxKeyExpiresAt = None,
       ProductionKeyExpiresAt = None, ColorPreference = Auto \<rparr>"

definition fresh_state :: login_state where
  "fresh_state = \<lparr> cfg_Profile = default_profile, config_file = [], console = [] \<rparr>"

definition live_state :: login_state where
  "live_state =
     \<lparr> cfg_Profile = default_profile\<lparr>ProductionKey := ''sk_live_1234567890''\<rparr>,
       config_file = [], console = [] \<rparr>"

definition shared_state :: login_state where
  "shared_state =
     \<lparr> cfg_Profile = default_profile\<lparr>ProductionKey := ''sk_live_1234567890''\<rparr>,
       config_file = [(''other'', [(''test_mode_api_key'', ''sk_test_0000000000'')])],
       console = [] \<rparr>"

text \<open>
  The resolver's inputs of \<open>setupWhoamiConfig\<close>, with the override set: the profile
  \<open>test\<close> holds a test key, the keyring a live key, and \<open>STRIPE_API_KEY\<close> overrides both
  modes.
\<close>

definition stripe_api_key :: "mode \<Rightarrow> string" where
  "stripe_api_key m = ''STRIPE_API_KEY''"

definition stored_profile :: Profile where
  "stored_profile =
     default_profile\<lparr> ProfileName := ''test'', AccountID := ''acct_123'', DisplayName := ''Alice'',
                       TestModeAPIKey := ''sk_test_1234abcd'' \<rparr>"

definition test_keyring :: secure_store where
  "test_keyring = Items [(''test.live_mode_api_key'', ''rk_live_0000000001'')]"

definition override_env :: environ where
  "override_env = [''STRIPE_API_KEY'' \<mapsto> ''sk_test_from_env'']"

section \<open>Lemmas\<close>

subsection \<open>The loader of the environment file\<close>

lemma choose_path_explicit:
  "snd (choose_path envFile dotenv) = (envFile \<noteq> [] \<or> dotenv)"
  by (simp add: choose_path_def)

text \<open>The function, branch by branch, once the path is chosen.\<close>

lemma load_cases:
  assumes "choose_path envFile dotenv = (path, ex)"
  shows "loadDotenvFromFlags envFile dotenv fs p =
      (case Stat fs path of
         NotExist \<Rightarrow>
           (if ex
            then (Some (''failed to load '' @ path @ '': file not found''), p)
            else (None, p))
       | StatError err \<Rightarrow>
           (if ex
            then (Some (''failed to stat '' @ path @ '': '' @ err), p)
            else (None, p))
       | FileInfo mode \<Rightarrow>
           (if mode AND 4 \<noteq> 0
            then (if ex
                  then (Some (''.env file has insecure permissions (world-readable): '' @ path
                              @ ''. Run 'chmod 600 '' @ path @ ''' to fix this''),
                        p\<lparr>logs := logs p @ [insecure_warning path mode]\<rparr>)
                  else (None, p\<lparr>logs := logs p @ [insecure_warning path mode]\<rparr>))
            else (case Read fs path of
                    Inl err \<Rightarrow> (Some (''failed to load '' @ path @ '': '' @ err), p)
                  | Inr vars \<Rightarrow>
                       (None, p\<lparr>logs := logs p @ [loaded_debug path],
                                 stdout := (if dotenv
                                            then stdout p @ [''Loaded environment variables from '' @ path]
                                            else stdout p),
                                 env := load_allowed allowlist vars (env p)\<rparr>))))"
  unfolding loadDotenvFromFlags_def assms
  by (simp add: Let_def split: stat_result.splits sum.splits)

text \<open>The environment after the call is the one before, or the loop's result on it.\<close>

lemma load_env:
  "env (snd (loadDotenvFromFlags envFile dotenv fs p)) = env p \<or>
   (\<exists>vars. env (snd (loadDotenvFromFlags envFile dotenv fs p)) = load_allowed allowlist vars (env p))"
proof -
  obtain path ex where cp: "choose_path envFile dotenv = (path, ex)"
    by (cases "choose_path envFile dotenv")
  show ?thesis
    unfolding load_cases [OF cp]
    by (auto split: stat_result.splits sum.splits)
qed

text \<open>The loop leaves a name alone that is not in its list or is already set.\<close>

lemma load_allowed_frame:
  "k \<notin> set ks \<or> e k \<noteq> None \<Longrightarrow> load_allowed ks vars e k = e k"
proof (induction ks arbitrary: e)
  case Nil
  then show ?case by simp
next
  case (Cons a ks)
  let ?e' = "case vars a of None \<Rightarrow> e
        | Some v \<Rightarrow> (case e a of None \<Rightarrow> snd (Setenv a v e) | Some old \<Rightarrow> e)"
  have same: "?e' k = e k"
    using Cons.prems by (auto simp: Setenv_def split: option.splits)
  have "k \<notin> set ks \<or> ?e' k \<noteq> None"
    using Cons.prems same by auto
  then have "load_allowed ks vars ?e' k = ?e' k"
    by (rule Cons.IH)
  with same show ?case by simp
qed

text \<open>
  C2 (the code departs from the claim): with no flag given, a file of mode 0600 at
  \<open>.env\<close> that \<open>godotenv.Read\<close> refuses makes the loader panic, although nothing was
  explicitly requested. The branches for a failed \<open>os.Stat\<close> and for a world-readable
  file look at \<open>explicitlyRequested\<close>; the branch for a failed read does not.
\<close>

theorem unreadable_file_panics_on_auto_load:
  "choose_path [] False = (''.env'', False)
   \<and> loadDotenvFromFlags [] False malformed_fs empty_process
       = (Some ''failed to load .env: unexpected character in variable name'', empty_process)"
  by (simp add: loadDotenvFromFlags_def choose_path_def malformed_fs_def)

text \<open>
  C3: when the environment file exists and its mode has the others-read bit (0004),
  the loader panics if the file was explicitly requested (a path was given or the
  auto-load flag was set); otherwise it returns normally, the environment is unchanged
  and the log has one more entry, a warning.
\<close>

theorem world_readable_file:
  assumes "choose_path envFile dotenv = (path, explicitlyRequested)"
      and "Stat fs path = FileInfo mode"
      and "mode AND 4 \<noteq> 0"
  shows "explicitlyRequested = (envFile \<noteq> [] \<or> dotenv)
       \<and> (explicitlyRequested \<longrightarrow> (\<exists>e. fst (loadDotenvFromFlags envFile dotenv fs p) = Some e))
       \<and> (\<not> explicitlyRequested \<longrightarrow>
            fst (loadDotenvFromFlags envFile dotenv fs p) = None
            \<and> env (snd (loadDotenvFromFlags envFile dotenv fs p)) = env p
            \<and> logs (snd (loadDotenvFromFlags envFile dotenv fs p)) = logs p @ [insecure_warning path mode]
            \<and> level (insecure_warning path mode) = Warn)"
proof -
  have ex: "explicitlyRequested = (envFile \<noteq> [] \<or> dotenv)"
    using choose_path_explicit [of envFile dotenv] assms(1) by simp
  have run: "loadDotenvFromFlags envFile dotenv fs p =
      (if explicitlyRequested
       then (Some (''.env file has insecure permissions (world-readable): '' @ path
                   @ ''. Run 'chmod 600 '' @ path @ ''' to fix this''),
             p\<lparr>logs := logs p @ [insecure_warning path mode]\<rparr>)
       else (None, p\<lparr>logs := logs p @ [insecure_warning path mode]\<rparr>))"
    using assms(2,3) by (simp add: load_cases [OF assms(1)])
  show ?thesis
    unfolding run using ex by (simp add: insecure_warning_def)
qed

theorem world_readable_file_witness:
  "(\<exists>e. fst (loadDotenvFromFlags ''insecure.env'' False insecure_fs empty_process) = Some e)
   \<and> fst (loadDotenvFromFlags [] False insecure_fs empty_process) = None
   \<and> env (snd (loadDotenvFromFlags [] False insecure_fs empty_process)) ''STRIPE_SECRET_KEY'' = None
   \<and> logs (snd (loadDotenvFromFlags [] False insecure_fs empty_process)) = [insecure_warning ''.env'' 0x1A4]"
  using world_readable_file [of "''insecure.env''" False "''insecure.env''" True insecure_fs "0x1A4" empty_process]
        world_readable_file [of "[]" False "''.env''" False insecure_fs "0x1A4" empty_process]
  by (simp add: choose_path_def insecure_fs_def empty_process_def)

text \<open>
  C4: whatever the file holds and whatever the outcome, the loader leaves every
  environment variable as it was whose name is not one of \<open>STRIPE_SECRET_KEY\<close> and
  \<open>STRIPE_DEVICE_NAME\<close>, and every variable that was already set.
\<close>

theorem load_changes_only_unset_allowed_names:
  "k \<notin> {''STRIPE_SECRET_KEY'', ''STRIPE_DEVICE_NAME''} \<or> env p k \<noteq> None \<Longrightarrow>
   env (snd (loadDotenvFromFlags envFile dotenv fs p)) k = env p k"
  using load_env [of envFile dotenv fs p] load_allowed_frame [of k allowlist "env p"]
  by (auto simp: allowlist_def)

theorem load_changes_only_unset_allowed_names_witness:
  "loadDotenvFromFlags ''test.env'' False secure_fs existing_process =
     (None, existing_process\<lparr>logs := [loaded_debug ''test.env''],
               env := [''STRIPE_SECRET_KEY'' \<mapsto> ''sk_test_existing'',
                       ''STRIPE_DEVICE_NAME'' \<mapsto> ''test_device'']\<rparr>)
   \<and> env (snd (loadDotenvFromFlags ''test.env'' False secure_fs existing_process)) ''STRIPE_SECRET_KEY''
       = Some ''sk_test_existing''
   \<and> env (snd (loadDotenvFromFlags ''test.env'' False secure_fs existing_process)) ''PATH'' = None"
  using load_changes_only_unset_allowed_names
          [of "''STRIPE_SECRET_KEY''" existing_process "''test.env''" False secure_fs]
        load_changes_only_unset_allowed_names
          [of "''PATH''" existing_process "''test.env''" False secure_fs]
  apply (simp add: existing_process_def)
  apply (simp add: loadDotenvFromFlags_def choose_path_def secure_fs_def allowlist_def
                   Setenv_def loaded_debug_def Let_def)
  done

text \<open>
  C5: when the environment file does not exist, the loader panics if the file was
  explicitly requested (a path was given or the auto-load flag was set); with neither
  it returns normally and leaves the process as it was: no variable set, nothing
  logged, nothing printed.
\<close>

theorem missing_file:
  assumes "choose_path envFile dotenv = (path, explicitlyRequested)"
      and "Stat fs path = NotExist"
  shows "explicitlyRequested = (envFile \<noteq> [] \<or> dotenv)
       \<and> (explicitlyRequested \<longrightarrow>
            loadDotenvFromFlags envFile dotenv fs p
              = (Some (''failed to load '' @ path @ '': file not found''), p))
       \<and> (\<not> explicitlyRequested \<longrightarrow> loadDotenvFromFlags envFile dotenv fs p = (None, p))"
proof -
  have ex: "explicitlyRequested = (envFile \<noteq> [] \<or> dotenv)"
    using choose_path_explicit [of envFile dotenv] assms(1) by simp
  have run: "loadDotenvFromFlags envFile dotenv fs p =
      (if explicitlyRequested
       then (Some (''failed to load '' @ path @ '': file not found''), p)
       else (None, p))"
    using assms(2) by (simp add: load_cases [OF assms(1)])
  show ?thesis
    unfolding run using ex by simp
qed

theorem missing_file_witness:
  "loadDotenvFromFlags ''/nonexistent/file.env'' False missing_fs empty_process
     = (Some ''failed to load /nonexistent/file.env: file not found'', empty_process)
   \<and> loadDotenvFromFlags [] True missing_fs empty_process
     = (Some ''failed to load .env: file not found'', empty_process)
   \<and> loadDotenvFromFlags [] False missing_fs empty_process = (None, empty_process)"
  using missing_file [of "''/nonexistent/file.env''" False "''/nonexistent/file.env''" True missing_fs empty_process]
        missing_file [of "[]" True "''.env''" True missing_fs empty_process]
        missing_file [of "[]" False "''.env''" False missing_fs empty_process]
  by (simp add: choose_path_def missing_fs_def)

subsection \<open>The identity command\<close>

lemma json_has_test:
  "map_of (MarshalIndent out) ''has_test_mode_api_key'' = Some (JBool (out_HasTestKey out))"
  by (simp add: MarshalIndent_def omitempty_def)

lemma json_has_live:
  "map_of (MarshalIndent out) ''has_live_mode_api_key'' = Some (JBool (out_HasLiveKey out))"
  by (simp add: MarshalIndent_def omitempty_def)

lemma json_test_key:
  "map_of (MarshalIndent out) ''test_mode_api_key'' =
     (if out_TestAPIKey out = [] then None else Some (JString (out_TestAPIKey out)))"
  by (simp add: MarshalIndent_def omitempty_def)

lemma json_live_key:
  "map_of (MarshalIndent out) ''live_mode_api_key'' =
     (if out_LiveAPIKey out = [] then None else Some (JString (out_LiveAPIKey out)))"
  by (simp add: MarshalIndent_def omitempty_def)

lemma printed_under_append:
  "printed_under (xs @ ys) name = printed_under xs name @ printed_under ys name"
  by (induction xs name rule: printed_under.induct) simp_all

lemma human_has_test:
  "printed_under (human_output d out showKeys now) ''has_test_mode_api_key'' = [fmt_bool (out_HasTestKey out)]"
  by (simp add: human_output_def printed_under_append field_if_set_def expired_warning_def)

lemma human_has_live:
  "printed_under (human_output d out showKeys now) ''has_live_mode_api_key'' = [fmt_bool (out_HasLiveKey out)]"
  by (simp add: human_output_def printed_under_append field_if_set_def expired_warning_def)

lemma human_test_key:
  "printed_under (human_output d out showKeys now) ''test_mode_api_key'' =
     (if showKeys \<and> out_HasTestKey out then [out_TestAPIKey out] else [])"
  by (simp add: human_output_def printed_under_append field_if_set_def expired_warning_def)

lemma human_live_key:
  "printed_under (human_output d out showKeys now) ''live_mode_api_key'' =
     (if showKeys \<and> out_HasLiveKey out then [out_LiveAPIKey out] else [])"
  by (simp add: human_output_def printed_under_append field_if_set_def expired_warning_def)

lemma human_warning:
  "(expired_warning \<in> set (human_output d out showKeys now)) = test_key_expired d (out_TestKeyExp out) now"
  by (simp add: human_output_def field_if_set_def expired_warning_def)


text \<open>
  C9: for a configured profile the command returns no error, whatever the key lookups
  answer. Its output always carries both has-key booleans, each true exactly when the
  lookup gave no error and a non-empty key (so a lookup that fails, or an empty key,
  shows as \<open>false\<close>); the human output prints them as \<open>true\<close> and \<open>false\<close>.
  The key fields appear only when keys were requested and the mode has a key, and then
  hold the redacted key; when keys were not requested both are left out. (In the JSON
  document a key field is also left out when the redacted string is empty.)
\<close>

theorem whoami_reports_keys:
  "fst (RunE d (Some p) projectName profilesFile asJSON showKeys now) = None
   \<and> json_field (snd (RunE d (Some p) projectName profilesFile True showKeys now)) ''has_test_mode_api_key''
       = Some (JBool (has_key (GetAPIKey p False)))
   \<and> json_field (snd (RunE d (Some p) projectName profilesFile True showKeys now)) ''has_live_mode_api_key''
       = Some (JBool (has_key (GetAPIKey p True)))
   \<and> printed_under (snd (RunE d (Some p) projectName profilesFile False showKeys now)) ''has_test_mode_api_key''
       = [if has_key (GetAPIKey p False) then ''true'' else ''false'']
   \<and> printed_under (snd (RunE d (Some p) projectName profilesFile False showKeys now)) ''has_live_mode_api_key''
       = [if has_key (GetAPIKey p True) then ''true'' else ''false'']
   \<and> json_field (snd (RunE d (Some p) projectName profilesFile True showKeys now)) ''test_mode_api_key''
       = (if showKeys \<and> has_key (GetAPIKey p False) \<and> RedactAPIKey d (fst (GetAPIKey p False)) \<noteq> []
          then Some (JString (RedactAPIKey d (fst (GetAPIKey p False)))) else None)
   \<and> json_field (snd (RunE d (Some p) projectName profilesFile True showKeys now)) ''live_mode_api_key''
       = (if showKeys \<and> has_key (GetAPIKey p True) \<and> RedactAPIKey d (fst (GetAPIKey p True)) \<noteq> []
          then Some (JString (RedactAPIKey d (fst (GetAPIKey p True)))) else None)
   \<and> printed_under (snd (RunE d (Some p) projectName profilesFile False showKeys now)) ''test_mode_api_key''
       = (if showKeys \<and> has_key (GetAPIKey p False) then [RedactAPIKey d (fst (GetAPIKey p False))] else [])
   \<and> printed_under (snd (RunE d (Some p) projectName profilesFile False showKeys now)) ''live_mode_api_key''
       = (if showKeys \<and> has_key (GetAPIKey p True) then [RedactAPIKey d (fst (GetAPIKey p True))] else [])
   \<and> has_key r = (snd r = None \<and> fst r \<noteq> [])
   \<and> has_key (key, Some err) = False
   \<and> has_key ([], e) = False"
proof -
  let ?out = "build_output d p projectName profilesFile showKeys"
  have j: "snd (RunE d (Some p) projectName profilesFile True showKeys now) = [JSON (MarshalIndent ?out)]"
    by (simp add: RunE_def Let_def)
  have h: "snd (RunE d (Some p) projectName profilesFile False showKeys now) = human_output d ?out showKeys now"
    by (simp add: RunE_def Let_def)
  have e: "fst (RunE d (Some p) projectName profilesFile asJSON showKeys now) = None"
    by (simp add: RunE_def Let_def)
  have o: "out_HasTestKey (build_output d p projectName profilesFile sk) = has_key (GetAPIKey p False)"
          "out_HasLiveKey (build_output d p projectName profilesFile sk) = has_key (GetAPIKey p True)"
          "out_TestAPIKey (build_output d p projectName profilesFile sk)
             = (if sk \<and> has_key (GetAPIKey p False) then RedactAPIKey d (fst (GetAPIKey p False)) else [])"
          "out_LiveAPIKey (build_output d p projectName profilesFile sk)
             = (if sk \<and> has_key (GetAPIKey p True) then RedactAPIKey d (fst (GetAPIKey p True)) else [])"
    for sk
    by (simp_all add: build_output_def Let_def)
  have k: "has_key (key, Some err) = False" "has_key ([], e) = False"
    by (simp_all add: has_key_def split: option.splits)
  have r: "has_key r = (snd r = None \<and> fst r \<noteq> [])"
    by (cases r) (simp add: has_key_def split: option.splits)
  show ?thesis
    unfolding j h
    using r
    by (simp add: e k o json_has_test json_has_live json_test_key json_live_key
                  human_has_test human_has_live human_test_key human_live_key fmt_bool_def)
qed

theorem whoami_reports_keys_witness:
  "RunE test_deps (Some keyless_profile) ''test'' ''config.toml'' False True 0
     = (None, [Labelled ''project-name'' ''test'', Labelled ''display_name'' ''Alice'',
               Labelled ''account_id'' ''acct_123'', Labelled ''device_name'' ''device-from-env'',
               Labelled ''color'' ''auto'', Labelled ''has_test_mode_api_key'' ''false'',
               Labelled ''has_live_mode_api_key'' ''false''])
   \<and> RunE test_deps (Some test_profile) ''test'' ''config.toml'' False True 0
     = (None, [Labelled ''project-name'' ''test'', Labelled ''display_name'' ''Alice'',
               Labelled ''account_id'' ''acct_123'', Labelled ''device_name'' ''device-from-env'',
               Labelled ''color'' ''auto'', Labelled ''has_test_mode_api_key'' ''true'',
               Labelled ''test_mode_key_expires_at'' ''2099-01-02'',
               Labelled ''has_live_mode_api_key'' ''true'',
               Labelled ''live_mode_key_expires_at'' ''2099-02-03'',
               Labelled ''test_mode_api_key'' ''sk_test_********'',
               Labelled ''live_mode_api_key'' ''rk_live_**********''])
   \<and> printed_under (snd (RunE test_deps (Some test_profile) ''test'' ''config.toml'' False False 0))
         ''has_test_mode_api_key'' = [''true'']
   \<and> printed_under (snd (RunE test_deps (Some test_profile) ''test'' ''config.toml'' False False 0))
         ''test_mode_api_key'' = []
   \<and> printed_under (snd (RunE test_deps (Some test_profile) ''test'' ''config.toml'' False False 0))
         ''live_mode_api_key'' = []
   \<and> json_field (snd (RunE test_deps (Some test_profile) ''test'' ''config.toml'' True True 0)) ''test_mode_api_key''
        = Some (JString ''sk_test_********'')
   \<and> json_field (snd (RunE test_deps (Some test_profile) ''test'' ''config.toml'' True True 0)) ''live_mode_api_key''
        = Some (JString ''rk_live_**********'')
   \<and> json_field (snd (RunE test_deps (Some test_profile) ''test'' ''config.toml'' True False 0)) ''test_mode_api_key'' = None
   \<and> json_field (snd (RunE test_deps (Some test_profile) ''test'' ''config.toml'' True False 0)) ''live_mode_api_key'' = None
   \<and> json_field (snd (RunE test_deps (Some test_profile) ''test'' ''config.toml'' True False 0)) ''has_test_mode_api_key'' = Some (JBool True)
   \<and> json_field (snd (RunE test_deps (Some test_profile) ''test'' ''config.toml'' True False 0)) ''has_live_mode_api_key'' = Some (JBool True)
   \<and> json_field (snd (RunE test_deps (Some keyless_profile) ''test'' ''config.toml'' True True 0)) ''has_test_mode_api_key'' = Some (JBool False)
   \<and> json_field (snd (RunE test_deps (Some keyless_profile) ''test'' ''config.toml'' True True 0)) ''has_live_mode_api_key'' = Some (JBool False)"
  using whoami_reports_keys [where d = test_deps and p = keyless_profile and projectName = "''test''"
          and profilesFile = "''config.toml''" and asJSON = False and showKeys = True and now = 0
          and key = "[]" and err = "''e''" and e = None and r = "([], None)"]
        whoami_reports_keys [where d = test_deps and p = test_profile and projectName = "''test''"
          and profilesFile = "''config.toml''" and asJSON = True and showKeys = True and now = 0
          and key = "[]" and err = "''e''" and e = None and r = "(''sk_test_1234abcd'', None)"]
        whoami_reports_keys [where d = test_deps and p = test_profile and projectName = "''test''"
          and profilesFile = "''config.toml''" and asJSON = True and showKeys = False and now = 0
          and key = "[]" and err = "''e''" and e = None and r = "(''sk_test_1234abcd'', None)"]
  apply (simp add: has_key_def keyless_profile_def test_profile_def test_deps_def mask_after_prefix_def)
  apply (simp add: RunE_def build_output_def human_output_def field_if_set_def fmt_bool_def Let_def
                   MarshalIndent_def omitempty_def Hour_def expired_warning_def
                   has_key_def ok_or_empty_def expiry_string_def test_key_expired_def
                   keyless_profile_def test_profile_def test_deps_def mask_after_prefix_def)
  done

text \<open>
  C6: the test key is flagged as expired exactly when the current time is more than 24
  hours after the parsed expiry date: not at the expiry instant, not 23 hours after it,
  but 25 hours after it; an expiry string that is empty or does not parse is never
  flagged. A missing expiry (an error from the lookup, or the zero time)
  gives the empty expiry string, which is never flagged. The human output of the
  command ends with the warning line exactly in the flagged case; the JSON output never
  has it.
\<close>

theorem expiry_grace_window:
  assumes "Parse d s = Some exp" and "s \<noteq> []"
  shows "\<not> test_key_expired d s exp
       \<and> \<not> test_key_expired d s (exp + 23 * Hour)
       \<and> test_key_expired d s (exp + 25 * Hour)
       \<and> test_key_expired d s now = (exp + 24 * Hour < now)
       \<and> test_key_expired d s' now = (s' \<noteq> [] \<and> (\<exists>x. Parse d s' = Some x \<and> x + 24 * Hour < now))
       \<and> \<not> test_key_expired d [] now
       \<and> expiry_string d (t, Some err) = []
       \<and> expiry_string d (0, e) = []
       \<and> (expired_warning \<in> set (snd (RunE d (Some p) projectName profilesFile False showKeys now)))
           = test_key_expired d (expiry_string d (GetExpiresAt p False)) now
       \<and> expired_warning \<notin> set (snd (RunE d (Some p) projectName profilesFile True showKeys now))"
proof -
  have rule: "test_key_expired d s n = (exp + 24 * Hour < n)" for n
    using assms by (simp add: test_key_expired_def)
  have general: "test_key_expired d s' now = (s' \<noteq> [] \<and> (\<exists>x. Parse d s' = Some x \<and> x + 24 * Hour < now))"
    by (simp add: test_key_expired_def split: option.splits)
  have missing: "\<not> test_key_expired d [] now"
    by (simp add: test_key_expired_def)
  have absent: "expiry_string d (t, Some err) = []" "expiry_string d (0, e) = []"
    by (simp_all add: expiry_string_def split: option.splits)
  have human: "(expired_warning \<in> set (snd (RunE d (Some p) projectName profilesFile False showKeys now)))
           = test_key_expired d (expiry_string d (GetExpiresAt p False)) now"
    by (simp add: RunE_def Let_def human_warning build_output_def)
  have json: "expired_warning \<notin> set (snd (RunE d (Some p) projectName profilesFile True showKeys now))"
    by (simp add: RunE_def Let_def expired_warning_def)
  show ?thesis
    unfolding rule using general missing absent human json by (simp add: Hour_def)
qed

theorem expiry_grace_window_witness:
  "expired_warning \<in> set (snd (RunE test_deps (Some expired_profile) ''test'' ''config.toml'' False False
                                  (63839664000000000000 + 25 * Hour)))
   \<and> expired_warning \<notin> set (snd (RunE test_deps (Some expired_profile) ''test'' ''config.toml'' False False
                                  (63839664000000000000 + 23 * Hour)))
   \<and> expired_warning \<notin> set (snd (RunE test_deps (Some expired_profile) ''test'' ''config.toml'' False False
                                  63839664000000000000))
   \<and> expired_warning \<notin> set (snd (RunE test_deps (Some keyless_profile) ''test'' ''config.toml'' False False
                                  (63839664000000000000 + 25 * Hour)))"
  using expiry_grace_window [where d = test_deps and s = "''2024-01-01''" and exp = 63839664000000000000
          and now = "63839664000000000000 + 25 * Hour" and p = expired_profile and projectName = "''test''"
          and profilesFile = "''config.toml''" and showKeys = False and t = 0 and err = "[]" and e = None]
        expiry_grace_window [where d = test_deps and s = "''2024-01-01''" and exp = 63839664000000000000
          and now = "63839664000000000000 + 23 * Hour" and p = expired_profile and projectName = "''test''"
          and profilesFile = "''config.toml''" and showKeys = False and t = 0 and err = "[]" and e = None]
        expiry_grace_window [where d = test_deps and s = "''2024-01-01''" and exp = 63839664000000000000
          and now = "63839664000000000000" and p = expired_profile and projectName = "''test''"
          and profilesFile = "''config.toml''" and showKeys = False and t = 0 and err = "[]" and e = None]
        expiry_grace_window [where d = test_deps and s = "''2024-01-01''" and exp = 63839664000000000000
          and now = "63839664000000000000 + 25 * Hour" and p = keyless_profile and projectName = "''test''"
          and profilesFile = "''config.toml''" and showKeys = False and t = 0 and err = "[]" and e = None]
  by (simp add: test_deps_def expired_profile_def keyless_profile_def test_profile_def
                expiry_string_def test_key_expired_def Hour_def)

subsection \<open>The resolver\<close>

text \<open>
  C7: when the environment variable that overrides a mode is set and not empty, the
  resolver answers with its value and \<open>found = true\<close>, whatever the profile file and the
  secure store hold for that mode.
\<close>

theorem override_wins:
  assumes "e (override m) = Some v" and "v \<noteq> []"
  shows "Resolve override e store p m = (v, True)"
  using assms by (simp add: Resolve_def)

theorem override_wins_witness:
  "Resolve stripe_api_key override_env test_keyring stored_profile Sandbox = (''sk_test_from_env'', True)
   \<and> Resolve stripe_api_key override_env test_keyring stored_profile Production = (''sk_test_from_env'', True)
   \<and> stored_key test_keyring stored_profile Sandbox = (''sk_test_1234abcd'', True)
   \<and> stored_key test_keyring stored_profile Production = (''rk_live_0000000001'', True)"
  using override_wins [of override_env stripe_api_key Sandbox "''sk_test_from_env''" test_keyring stored_profile]
        override_wins [of override_env stripe_api_key Production "''sk_test_from_env''" test_keyring stored_profile]
  by (simp add: override_env_def stripe_api_key_def stored_key_def test_keyring_def
                stored_profile_def default_profile_def SecureStore_Get_def)

subsection \<open>Login with an API key\<close>

text \<open>The function when the key is valid and the profile write succeeds.\<close>

lemma login_cases:
  assumes "APIKey d (TrimSpace d apiKey) = None" and "write_error d = None"
  shows "LoginWithAPIKey d url apiKey s =
     (let key = TrimSpace d apiKey;
          p0 = cfg_Profile s;
          p3 = p0\<lparr>DeviceName := (if TrimSpace d (DeviceName p0) = []
                                  then (case Hostname d of (hostName, None) \<Rightarrow> hostName
                                                         | (hostName, Some err) \<Rightarrow> ''unknown'')
                                  else DeviceName p0),
                   TestModeAPIKey := key,
                   DisplayName := fst (getDisplayName d url key)\<rparr>
      in (None, \<lparr> cfg_Profile = p3,
                  config_file = write_block (ProfileName p0) (plaintext_block p3) (config_file s),
                  console = console s @
                    [case SuccessMessage d url key of
                       (message, Some err) \<Rightarrow> ''> Error verifying the CLI was setup successfully: '' @ err
                     | (message, None) \<Rightarrow> ''> '' @ message] \<rparr>))"
  using assms
  by (simp add: LoginWithAPIKey_def CreateProfile_def Let_def split: prod.splits option.splits)

text \<open>
  C10: when the key passes validation and the profile write succeeds, the function
  returns nil whether or not the verification of the setup succeeds. The profile file
  then holds the section written for the profile, whose test mode key is the trimmed
  key, and one line was printed: the error of the verification when it failed (the
  error is not returned), its message otherwise.
\<close>

theorem login_succeeds_without_verification:
  assumes "APIKey d (TrimSpace d apiKey) = None" and "write_error d = None"
  shows "fst (LoginWithAPIKey d url apiKey s) = None
       \<and> CreateProfile (write_error d) (cfg_Profile (snd (LoginWithAPIKey d url apiKey s))) (config_file s)
           = Inr (config_file (snd (LoginWithAPIKey d url apiKey s)))
       \<and> TestModeAPIKey (cfg_Profile (snd (LoginWithAPIKey d url apiKey s))) = TrimSpace d apiKey
       \<and> console (snd (LoginWithAPIKey d url apiKey s)) = console s @
            [case SuccessMessage d url (TrimSpace d apiKey) of
               (message, Some err) \<Rightarrow> ''> Error verifying the CLI was setup successfully: '' @ err
             | (message, None) \<Rightarrow> ''> '' @ message]"
  unfolding login_cases [OF assms]
  using assms(2) by (simp add: Let_def CreateProfile_def split: prod.splits option.splits)

theorem login_succeeds_without_verification_witness:
  "LoginWithAPIKey offline_deps ''http://127.0.0.1'' ''sk_test_1234567890'' fresh_state =
     (None, \<lparr> cfg_Profile = default_profile\<lparr>TestModeAPIKey := ''sk_test_1234567890''\<rparr>,
               config_file = [(''default'', [(''test_mode_api_key'', ''sk_test_1234567890'')])],
               console = [''> Error verifying the CLI was setup successfully: connection refused''] \<rparr>)"
  using login_succeeds_without_verification
          [of offline_deps "''sk_test_1234567890''" "''http://127.0.0.1''" fresh_state]
  apply (simp add: offline_deps_def online_deps_def trim_ascii_def is_space_def format_check_def)
  apply (simp add: LoginWithAPIKey_def CreateProfile_def Let_def offline_deps_def online_deps_def
                   trim_ascii_def is_space_def format_check_def fresh_state_def default_profile_def
                   plaintext_block_def entry_if_set_def entry_if_some_def)
  done

subsection \<open>The plaintext profile file\<close>

lemma plaintext_block_ignores_production_key:
  "plaintext_block (p\<lparr>ProductionKey := k\<rparr>) = plaintext_block p"
  by (simp add: plaintext_block_def)

lemma login_ignores_production_key:
  "fst (LoginWithAPIKey d url apiKey (s\<lparr>cfg_Profile := (cfg_Profile s)\<lparr>ProductionKey := k\<rparr>\<rparr>))
     = fst (LoginWithAPIKey d url apiKey s)
   \<and> config_file (snd (LoginWithAPIKey d url apiKey (s\<lparr>cfg_Profile := (cfg_Profile s)\<lparr>ProductionKey := k\<rparr>\<rparr>)))
     = config_file (snd (LoginWithAPIKey d url apiKey s))"
  by (simp add: LoginWithAPIKey_def CreateProfile_def Let_def plaintext_block_def
           split: prod.splits option.splits sum.splits)

lemma login_keeps_production_key:
  "ProductionKey (cfg_Profile (snd (LoginWithAPIKey d url apiKey s))) = ProductionKey (cfg_Profile s)"
  by (simp add: LoginWithAPIKey_def CreateProfile_def Let_def
           split: prod.splits option.splits sum.splits)

lemma write_block_section:
  "map_of (write_block name b f) name = Some b"
  by (induction name b f rule: write_block.induct) simp_all

lemma write_block_others:
  "filter (\<lambda>sec. fst sec \<noteq> name) (write_block name b f) = filter (\<lambda>sec. fst sec \<noteq> name) f"
  by (induction name b f rule: write_block.induct) simp_all

lemma write_block_values:
  "set (file_values (write_block name b f)) \<subseteq> set (map snd b) \<union> set (file_values f)"
  by (induction name b f rule: write_block.induct) (auto simp: file_values_def)

lemma block_test_key:
  "map_of (plaintext_block p) ''test_mode_api_key''
     = (if TestModeAPIKey p = [] then None else Some (TestModeAPIKey p))"
  by (simp add: plaintext_block_def entry_if_set_def entry_if_some_def split: option.splits)

text \<open>
  C1, as amended: the write path never reads the profile's production key.
  \<open>CreateProfile\<close> gives the same result whatever the production key is. When the write
  succeeds, the file has the section written for the profile under the profile's name
  and every section of another name as it was, so every value in the file is a value
  of the written section or was in the file before. The written section holds only the
  fields \<open>account_id\<close>, \<open>display_name\<close>, \<open>test_mode_api_key\<close>,
  \<open>test_mode_key_expires_at\<close> and \<open>live_mode_key_expires_at\<close>, never a
  \<open>live_mode_api_key\<close>; its values are the profile's account id, display name, test
  mode key and expiry dates, and its \<open>test_mode_api_key\<close> is the profile's test mode key
  when that is not empty. The result of \<open>LoginWithAPIKey\<close> and the file it leaves do
  not depend on the production key of \<open>cfg.Profile\<close>, which it leaves as it was. When
  the key passes validation and the write succeeds, \<open>LoginWithAPIKey\<close> returns nil, the
  test mode key of \<open>cfg.Profile\<close> is the trimmed key it was given, whatever kind of key
  that is, and the file is the old file with the section of that profile written.
\<close>

theorem plaintext_file_ignores_production_key:
  "CreateProfile write_err (p\<lparr>ProductionKey := k\<rparr>) profiles = CreateProfile write_err p profiles
   \<and> CreateProfile None p profiles = Inr (write_block (ProfileName p) (plaintext_block p) profiles)
   \<and> map_of (write_block (ProfileName p) (plaintext_block p) profiles) (ProfileName p) = Some (plaintext_block p)
   \<and> filter (\<lambda>sec. fst sec \<noteq> ProfileName p) (write_block (ProfileName p) (plaintext_block p) profiles)
       = filter (\<lambda>sec. fst sec \<noteq> ProfileName p) profiles
   \<and> set (file_values (write_block (ProfileName p) (plaintext_block p) profiles))
       \<subseteq> set (map snd (plaintext_block p)) \<union> set (file_values profiles)
   \<and> set (map fst (plaintext_block p))
       \<subseteq> {''account_id'', ''display_name'', ''test_mode_api_key'',
          ''test_mode_key_expires_at'', ''live_mode_key_expires_at''}
   \<and> ''live_mode_api_key'' \<notin> set (map fst (plaintext_block p))
   \<and> set (map snd (plaintext_block p))
       \<subseteq> {AccountID p, DisplayName p, TestModeAPIKey p}
          \<union> set_option (SandboxKeyExpiresAt p) \<union> set_option (ProductionKeyExpiresAt p)
   \<and> map_of (plaintext_block p) ''test_mode_api_key''
       = (if TestModeAPIKey p = [] then None else Some (TestModeAPIKey p))
   \<and> fst (LoginWithAPIKey d url apiKey (s\<lparr>cfg_Profile := (cfg_Profile s)\<lparr>ProductionKey := k\<rparr>\<rparr>))
       = fst (LoginWithAPIKey d url apiKey s)
   \<and> config_file (snd (LoginWithAPIKey d url apiKey (s\<lparr>cfg_Profile := (cfg_Profile s)\<lparr>ProductionKey := k\<rparr>\<rparr>)))
       = config_file (snd (LoginWithAPIKey d url apiKey s))
   \<and> ProductionKey (cfg_Profile (snd (LoginWithAPIKey d url apiKey s))) = ProductionKey (cfg_Profile s)
   \<and> (APIKey d (TrimSpace d apiKey) = None \<and> write_error d = None \<longrightarrow>
        fst (LoginWithAPIKey d url apiKey s) = None
        \<and> TestModeAPIKey (cfg_Profile (snd (LoginWithAPIKey d url apiKey s))) = TrimSpace d apiKey
        \<and> ProfileName (cfg_Profile (snd (LoginWithAPIKey d url apiKey s))) = ProfileName (cfg_Profile s)
        \<and> config_file (snd (LoginWithAPIKey d url apiKey s))
            = write_block (ProfileName (cfg_Profile s))
                (plaintext_block (cfg_Profile (snd (LoginWithAPIKey d url apiKey s)))) (config_file s))"
proof -
  have names: "set (map fst (plaintext_block p))
       \<subseteq> {''account_id'', ''display_name'', ''test_mode_api_key'',
          ''test_mode_key_expires_at'', ''live_mode_key_expires_at''}"
    by (auto simp: plaintext_block_def entry_if_set_def entry_if_some_def split: option.splits if_splits)
  have no_live: "''live_mode_api_key'' \<notin> set (map fst (plaintext_block p))"
    using names by auto
  have vals: "set (map snd (plaintext_block p))
       \<subseteq> {AccountID p, DisplayName p, TestModeAPIKey p}
          \<union> set_option (SandboxKeyExpiresAt p) \<union> set_option (ProductionKeyExpiresAt p)"
    by (auto simp: plaintext_block_def entry_if_set_def entry_if_some_def split: option.splits if_splits)
  have create: "CreateProfile write_err (p\<lparr>ProductionKey := k\<rparr>) profiles = CreateProfile write_err p profiles"
    by (simp add: CreateProfile_def plaintext_block_ignores_production_key split: option.splits)
  have written: "CreateProfile None p profiles = Inr (write_block (ProfileName p) (plaintext_block p) profiles)"
    by (simp add: CreateProfile_def)
  have login: "APIKey d (TrimSpace d apiKey) = None \<and> write_error d = None \<longrightarrow>
        fst (LoginWithAPIKey d url apiKey s) = None
        \<and> TestModeAPIKey (cfg_Profile (snd (LoginWithAPIKey d url apiKey s))) = TrimSpace d apiKey
        \<and> ProfileName (cfg_Profile (snd (LoginWithAPIKey d url apiKey s))) = ProfileName (cfg_Profile s)
        \<and> config_file (snd (LoginWithAPIKey d url apiKey s))
            = write_block (ProfileName (cfg_Profile s))
                (plaintext_block (cfg_Profile (snd (LoginWithAPIKey d url apiKey s)))) (config_file s)"
  proof
    assume ok: "APIKey d (TrimSpace d apiKey) = None \<and> write_error d = None"
    then have a: "APIKey d (TrimSpace d apiKey) = None" and b: "write_error d = None"
      by simp_all
    show "fst (LoginWithAPIKey d url apiKey s) = None
        \<and> TestModeAPIKey (cfg_Profile (snd (LoginWithAPIKey d url apiKey s))) = TrimSpace d apiKey
        \<and> ProfileName (cfg_Profile (snd (LoginWithAPIKey d url apiKey s))) = ProfileName (cfg_Profile s)
        \<and> config_file (snd (LoginWithAPIKey d url apiKey s))
            = write_block (ProfileName (cfg_Profile s))
                (plaintext_block (cfg_Profile (snd (LoginWithAPIKey d url apiKey s)))) (config_file s)"
      unfolding login_cases [OF a b] by (simp add: Let_def)
  qed
  have block: "map_of (write_block (ProfileName p) (plaintext_block p) profiles) (ProfileName p)
                   = Some (plaintext_block p)"
    by (rule write_block_section)
  have others: "filter (\<lambda>sec. fst sec \<noteq> ProfileName p) (write_block (ProfileName p) (plaintext_block p) profiles)
       = filter (\<lambda>sec. fst sec \<noteq> ProfileName p) profiles"
    by (rule write_block_others)
  have held: "set (file_values (write_block (ProfileName p) (plaintext_block p) profiles))
       \<subseteq> set (map snd (plaintext_block p)) \<union> set (file_values profiles)"
    by (rule write_block_values)
  have key: "map_of (plaintext_block p) ''test_mode_api_key''
       = (if TestModeAPIKey p = [] then None else Some (TestModeAPIKey p))"
    by (rule block_test_key)
  have same_result: "fst (LoginWithAPIKey d url apiKey (s\<lparr>cfg_Profile := (cfg_Profile s)\<lparr>ProductionKey := k\<rparr>\<rparr>))
       = fst (LoginWithAPIKey d url apiKey s)"
    using login_ignores_production_key by simp
  have same_file: "config_file (snd (LoginWithAPIKey d url apiKey (s\<lparr>cfg_Profile := (cfg_Profile s)\<lparr>ProductionKey := k\<rparr>\<rparr>)))
       = config_file (snd (LoginWithAPIKey d url apiKey s))"
    using login_ignores_production_key by simp
  have kept: "ProductionKey (cfg_Profile (snd (LoginWithAPIKey d url apiKey s))) = ProductionKey (cfg_Profile s)"
    by (rule login_keeps_production_key)
  show ?thesis
    by (intro conjI) (fact create written block others held names no_live vals key
                           same_result same_file kept login)+
qed

theorem plaintext_file_ignores_production_key_witness:
  "APIKey online_deps (TrimSpace online_deps ''sk_test_1234567890'') = None
   \<and> write_error online_deps = None
   \<and> LoginWithAPIKey online_deps ''http://127.0.0.1'' ''sk_test_1234567890'' shared_state
     = (None, \<lparr> cfg_Profile = default_profile\<lparr>TestModeAPIKey := ''sk_test_1234567890'',
                                                  DisplayName := ''test-display'',
                                                  ProductionKey := ''sk_live_1234567890''\<rparr>,
                 config_file = [(''other'', [(''test_mode_api_key'', ''sk_test_0000000000'')]),
                                (''default'', [(''display_name'', ''test-display''),
                                               (''test_mode_api_key'', ''sk_test_1234567890'')])],
                 console = [''> Done! The Stripe CLI is configured for test-display''] \<rparr>)
   \<and> config_file (snd (LoginWithAPIKey online_deps ''http://127.0.0.1'' ''sk_test_1234567890'' fresh_state))
     = [(''default'', [(''display_name'', ''test-display''), (''test_mode_api_key'', ''sk_test_1234567890'')])]
   \<and> ''sk_live_1234567890'' \<notin> set (file_values (config_file
         (snd (LoginWithAPIKey online_deps ''http://127.0.0.1'' ''sk_test_1234567890'' shared_state))))"
  using plaintext_file_ignores_production_key
          [where d = online_deps and url = "''http://127.0.0.1''" and apiKey = "''sk_test_1234567890''"
             and s = shared_state and k = "[]" and p = default_profile and write_err = None and profiles = "[]"]
  apply (simp add: shared_state_def fresh_state_def)
  apply (simp add: LoginWithAPIKey_def CreateProfile_def Let_def online_deps_def
                   trim_ascii_def is_space_def format_check_def default_profile_def
                   plaintext_block_def entry_if_set_def entry_if_some_def file_values_def)
  done

text \<open>
  C1, as stated, fails: \<open>LoginWithAPIKey\<close> treats the key it is given as the test mode
  key (lines 32 to 34) and persists it. Called with the key that the profile holds as
  its production key, it returns nil and leaves that string in the plaintext file, as
  the value of \<open>test_mode_api_key\<close>.
\<close>

theorem login_writes_given_key_in_plaintext:
  "fst (LoginWithAPIKey online_deps ''http://127.0.0.1'' ''sk_live_1234567890'' live_state) = None
   \<and> ProductionKey (cfg_Profile live_state) = ''sk_live_1234567890''
   \<and> config_file (snd (LoginWithAPIKey online_deps ''http://127.0.0.1'' ''sk_live_1234567890'' live_state))
       = [(''default'', [(''display_name'', ''test-display''), (''test_mode_api_key'', ''sk_live_1234567890'')])]
   \<and> ProductionKey (cfg_Profile (snd (LoginWithAPIKey online_deps ''http://127.0.0.1'' ''sk_live_1234567890'' live_state)))
       \<in> set (file_values (config_file (snd (LoginWithAPIKey online_deps ''http://127.0.0.1'' ''sk_live_1234567890'' live_state))))"
  by (simp add: LoginWithAPIKey_def CreateProfile_def Let_def online_deps_def live_state_def
                trim_ascii_def is_space_def format_check_def default_profile_def
                plaintext_block_def entry_if_set_def entry_if_some_def file_values_def)

end
